theory Spec2Isabelle
  imports Main
begin

section \<open>Errors\<close>

text \<open>
  A thrown JavaScript \<open>Error\<close>, carrying its message. Every \<open>throw\<close> of the hook layer
  and of the library calls it makes is a value \<open>Inl (Error msg)\<close> of a sum type.
\<close>

datatype js_error = Error string

section \<open>Domain encoder: DNA to genes\<close>

text \<open>
  Modelled from the spec: the declaration of the \<open>DNA\<close> type is not among the sources
  (the hook module imports it from the types module). A DNA value is an ordered record
  of named trait fields, each an integer-like value. Here a trait value is a JavaScript
  number that is a non-negative safe integer, at most \<open>Number.MAX_SAFE_INTEGER\<close>
  (\<open>2\<^sup>5\<^sup>3 - 1\<close>): the integers a number holds exactly and prints digit for digit. Larger
  numbers, whose printing rounds digits and from \<open>10\<^sup>2\<^sup>1\<close> on uses exponent notation,
  are not values of this type. A DNA value is the list of its properties in property
  order, so that \<open>Object.values\<close> is the list of the second components.
\<close>

definition MAX_SAFE_INTEGER :: nat where
  "MAX_SAFE_INTEGER = 9007199254740991"

typedef safe_integer = "{n :: nat. n \<le> MAX_SAFE_INTEGER}"
  by (rule exI [of _ 0]) simp

type_synonym DNA = "(string \<times> safe_integer) list"

definition Object_values :: "DNA \<Rightarrow> safe_integer list" where
  "Object_values dna = map snd dna"

text \<open>The decimal numeral of a natural number, without leading zeros.\<close>

definition digit_char :: "nat \<Rightarrow> char" where
  "digit_char d = char_of (48 + d)"

fun decimal :: "nat \<Rightarrow> string" where
  "decimal n =
     (if n < 10 then [digit_char n]
      else decimal (n div 10) @ [digit_char (n mod 10)])"

declare decimal.simps [simp del]

text \<open>
  The string conversion \<open>genes += dnaValue\<close> applies to a trait value: a safe integer
  prints as its decimal numeral.
\<close>

definition Number_toString :: "safe_integer \<Rightarrow> string" where
  "Number_toString v = decimal (Rep_safe_integer v)"

text \<open>
  \<open>BigNumber.from\<close> on a string, for the strings the encoder can pass: a non-empty
  string of decimal digits is read in base ten (leading zeros allowed); the empty string
  is rejected with an argument error.
\<close>

definition is_digit :: "char \<Rightarrow> bool" where
  "is_digit c = (48 \<le> (of_char c :: nat) \<and> (of_char c :: nat) \<le> 57)"

definition digit_value :: "char \<Rightarrow> nat" where
  "digit_value c = of_char c - 48"

definition read_decimal :: "string \<Rightarrow> nat" where
  "read_decimal s = foldl (\<lambda>acc c. 10 * acc + digit_value c) 0 s"

definition BigNumber_from :: "string \<Rightarrow> js_error + nat" where
  "BigNumber_from v =
     (if v \<noteq> [] \<and> list_all is_digit v then Inr (read_decimal v)
      else Inl (Error ''invalid BigNumber string''))"

text \<open>
  \<open>convertDnaToGenes\<close>: the accumulator \<open>genes\<close> starts empty, \<open>forEach\<close> appends the
  string of every value in order, and the result is parsed.
\<close>

definition convertDnaToGenes :: "DNA \<Rightarrow> js_error + nat" where
  "convertDnaToGenes dna =
     (let genes = foldl (\<lambda>genes dnaValue. genes @ Number_toString dnaValue) []
                    (Object_values dna)
      in BigNumber_from genes)"

text \<open>\<open>useDnaToGenes\<close> memoises \<open>convertDnaToGenes\<close> on the DNA value.\<close>

definition useDnaToGenes :: "DNA \<Rightarrow> js_error + nat" where
  "useDnaToGenes dna = convertDnaToGenes dna"


text \<open>
  The same in arithmetic, with no string in it. \<open>digits n\<close> is the number of decimal
  digits of \<open>n\<close>; writing the numeral of \<open>v\<close> after the numeral of \<open>g\<close> gives the numeral of
  \<open>g * 10 ^ digits v + v\<close>; \<open>genes_number\<close> does so for the values in order.
\<close>

fun digits :: "nat \<Rightarrow> nat" where
  "digits n = (if n < 10 then 1 else Suc (digits (n div 10)))"

declare digits.simps [simp del]

definition genes_number :: "nat list \<Rightarrow> nat" where
  "genes_number vs = foldl (\<lambda>g v. g * 10 ^ digits v + v) 0 vs"

section \<open>Chain resolver\<close>

text \<open>The two chain identifiers the SDK's \<open>ChainId\<close> enumeration gives the recognised networks.\<close>

definition Mumbai :: nat where
  "Mumbai = 80001"

definition Polygon :: nat where
  "Polygon = 137"

text \<open>
  What \<open>useEthers\<close> hands to the hooks: the provider, the account and the chain of the
  connected wallet, each possibly undefined.
\<close>

datatype Web3Provider = Web3Provider string

record ethers =
  library :: "Web3Provider option"
  account :: "string option"
  chainId :: "nat option"

text \<open>\<open>useChainId\<close>: the \<open>switch\<close> on the connected chain, with its default branch.\<close>

definition useChainId :: "nat option \<Rightarrow> nat" where
  "useChainId c =
     (case c of
        None \<Rightarrow> Mumbai
      | Some n \<Rightarrow> if n = Mumbai then n else if n = Polygon then n else Mumbai)"

section \<open>Contract resolver\<close>

datatype provider_or_signer = Provider Web3Provider | JsonRpcSigner Web3Provider string

datatype Interface = Interface "string list"

record Contract =
  contract_address :: string
  contract_interface :: Interface
  signerOrProvider :: provider_or_signer

text \<open>A \<open>console.error\<close> call is kept as the list of its arguments.\<close>

datatype console_arg = Text string | Thrown js_error

type_synonym console = "console_arg list list"

definition AddressZero :: string where
  "AddressZero = ''0x0000000000000000000000000000000000000000''"

text \<open>Truthiness of a possibly undefined string: undefined and the empty string are falsy.\<close>

definition truthy_string :: "string option \<Rightarrow> bool" where
  "truthy_string s = (case s of None \<Rightarrow> False | Some v \<Rightarrow> v \<noteq> [])"

definition getSigner :: "Web3Provider \<Rightarrow> string \<Rightarrow> provider_or_signer" where
  "getSigner lib acc = JsonRpcSigner lib acc"

definition getProviderOrSigner :: "Web3Provider \<Rightarrow> string option \<Rightarrow> provider_or_signer" where
  "getProviderOrSigner lib acc =
     (if truthy_string acc then getSigner lib (the acc) else Provider lib)"

text \<open>
  \<open>getContract\<close> throws on an address that fails the library's format validation
  \<open>isAddress\<close> (a parameter here: it checks the hexadecimal form and the checksum) or
  that is the zero address.
\<close>

definition invalid_address_message :: "string \<Rightarrow> string" where
  "invalid_address_message a =
     ''Invalid '' @ [CHR 0x27] @ ''address'' @ [CHR 0x27] @ '' parameter ''
       @ [CHR 0x27] @ a @ [CHR 0x27] @ ''.''"

definition getContract ::
  "(string \<Rightarrow> bool) \<Rightarrow> string \<Rightarrow> Interface \<Rightarrow> Web3Provider \<Rightarrow> string option
     \<Rightarrow> js_error + Contract" where
  "getContract isAddress a ABI lib acc =
     (if \<not> isAddress a \<or> a = AddressZero then Inl (Error (invalid_address_message a))
      else Inr \<lparr>contract_address = a, contract_interface = ABI,
                signerOrProvider = getProviderOrSigner lib acc\<rparr>)"

text \<open>
  \<open>useContract\<close> returns the handle or null, together with what it wrote to the console.
  The third parameter is optional in the source and defaults to true.
\<close>

definition withSignerIfPossible_default :: "bool option \<Rightarrow> bool" where
  "withSignerIfPossible_default w = (case w of None \<Rightarrow> True | Some b \<Rightarrow> b)"

definition useContract ::
  "(string \<Rightarrow> bool) \<Rightarrow> ethers \<Rightarrow> string option \<Rightarrow> Interface option \<Rightarrow> bool option
     \<Rightarrow> Contract option \<times> console" where
  "useContract isAddress eth a ABI w =
     (if \<not> truthy_string a \<or> a = Some AddressZero \<or> ABI = None \<or> library eth = None
      then (None, [])
      else
        (case getContract isAddress (the a) (the ABI) (the (library eth))
                (if withSignerIfPossible_default w \<and> truthy_string (account eth)
                 then account eth else None) of
           Inr c \<Rightarrow> (Some c, [])
         | Inl e \<Rightarrow> (None, [[Text ''Failed to get contract'', Thrown e]])))"

text \<open>
  The deployed addresses per chain (\<open>CONTRACTS\<close>) come from the configuration module and
  are a parameter of everything below.
\<close>

record chain_contracts =
  kitty :: "string option"
  marketplace :: "string option"

text \<open>
  Modelled from the spec: the two ABI files are not among the sources; the interfaces
  list the contract methods the hook layer uses.
\<close>

definition KittyContractInterface :: Interface where
  "KittyContractInterface =
     Interface [''totalSupply'', ''getGen0Price'', ''isApprovedForAll'',
                ''setApprovalForAll'', ''createKittyGen0'', ''breed'']"


definition useKittyContract ::
  "(string \<Rightarrow> bool) \<Rightarrow> (nat \<Rightarrow> chain_contracts) \<Rightarrow> ethers \<Rightarrow> bool option
     \<Rightarrow> Contract option \<times> console" where
  "useKittyContract isAddress CONTRACTS eth w =
     useContract isAddress eth (kitty (CONTRACTS (useChainId (chainId eth))))
       (Some KittyContractInterface) w"


section \<open>JavaScript values of the hook arguments\<close>

text \<open>
  The arguments of the action hooks at run time: \<open>BigNumberish\<close> is a \<open>BigNumber\<close> object,
  a byte array, a bigint, a string or a number, and an optional argument may be
  undefined (or null). \<open>truthy\<close> is the test that \<open>!x\<close> negates.
\<close>

datatype js_value =
    Undefined
  | Null
  | Boolean bool
  | Number int
  | Bigint int
  | String string
  | BigNumber int
  | Bytes "nat list"

fun truthy :: "js_value \<Rightarrow> bool" where
  "truthy Undefined = False"
| "truthy Null = False"
| "truthy (Boolean b) = b"
| "truthy (Number n) = (n \<noteq> 0)"
| "truthy (Bigint n) = (n \<noteq> 0)"
| "truthy (String s) = (s \<noteq> [])"
| "truthy (BigNumber n) = True"
| "truthy (Bytes bs) = True"

text \<open>\<open>x == undefined\<close>: loose equality holds for undefined and null only.\<close>

fun loosely_undefined :: "js_value \<Rightarrow> bool" where
  "loosely_undefined Undefined = True"
| "loosely_undefined Null = True"
| "loosely_undefined v = False"

section \<open>Read-value hooks\<close>

text \<open>
  A call handed to the SDK's \<open>useCall\<close>, and its result: undefined while nothing is
  known, otherwise either an error or the array of returned values. The node's answer
  to a call is the parameter \<open>rpc\<close>. Given a falsy argument \<open>useCall\<close> issues nothing and
  returns undefined.
\<close>

record Call =
  call_contract :: Contract
  call_method :: string
  call_args :: "string option list"

type_synonym CallResult = "(js_error + js_value list) option"

record read_hook =
  calls :: "Call list"
  logged :: console
  result :: js_value

definition useCall :: "(Call \<Rightarrow> CallResult) \<Rightarrow> Call option \<Rightarrow> CallResult \<times> Call list" where
  "useCall rpc c = (case c of None \<Rightarrow> (None, []) | Some call \<Rightarrow> (rpc call, [call]))"

text \<open>
  The part the three read hooks share after \<open>useCall\<close>: destructure \<open>value\<close> and \<open>error\<close>
  (both undefined when the result is), log the error's message, return \<open>value?.[0]\<close>.
\<close>

definition error_message :: "js_error \<Rightarrow> string" where
  "error_message e = (case e of Error m \<Rightarrow> m)"

definition first_value :: "js_value list option \<Rightarrow> js_value" where
  "first_value v = (case v of None \<Rightarrow> Undefined | Some [] \<Rightarrow> Undefined | Some (x # _) \<Rightarrow> x)"

definition read_value :: "console \<Rightarrow> CallResult \<times> Call list \<Rightarrow> read_hook" where
  "read_value log0 r =
     (let (res, issued) = r;
          v = (case res of Some (Inr vs) \<Rightarrow> Some vs | _ \<Rightarrow> None);
          error = (case res of Some (Inl e) \<Rightarrow> Some e | _ \<Rightarrow> None)
      in \<lparr>calls = issued,
          logged = log0 @ (case error of None \<Rightarrow> [] | Some e \<Rightarrow> [[Text (error_message e)]]),
          result = first_value v\<rparr>)"

definition useTotalSupply ::
  "(string \<Rightarrow> bool) \<Rightarrow> (nat \<Rightarrow> chain_contracts) \<Rightarrow> ethers \<Rightarrow> (Call \<Rightarrow> CallResult)
     \<Rightarrow> read_hook" where
  "useTotalSupply isAddress CONTRACTS eth rpc =
     (let (contract, log0) = useKittyContract isAddress CONTRACTS eth (Some False)
      in read_value log0
           (useCall rpc
              (case contract of
                 None \<Rightarrow> None
               | Some c \<Rightarrow>
                   Some \<lparr>call_contract = c, call_method = ''totalSupply'', call_args = []\<rparr>)))"

definition useGen0Price ::
  "(string \<Rightarrow> bool) \<Rightarrow> (nat \<Rightarrow> chain_contracts) \<Rightarrow> ethers \<Rightarrow> (Call \<Rightarrow> CallResult)
     \<Rightarrow> read_hook" where
  "useGen0Price isAddress CONTRACTS eth rpc =
     (let (contract, log0) = useKittyContract isAddress CONTRACTS eth (Some False)
      in read_value log0
           (useCall rpc
              (case contract of
                 None \<Rightarrow> None
               | Some c \<Rightarrow>
                   Some \<lparr>call_contract = c, call_method = ''getGen0Price'', call_args = []\<rparr>)))"

definition useIsApprovedForAll ::
  "(string \<Rightarrow> bool) \<Rightarrow> (nat \<Rightarrow> chain_contracts) \<Rightarrow> ethers \<Rightarrow> (Call \<Rightarrow> CallResult)
     \<Rightarrow> string option \<Rightarrow> read_hook" where
  "useIsApprovedForAll isAddress CONTRACTS eth rpc a =
     (let (contract, log0) = useKittyContract isAddress CONTRACTS eth None;
          chain = useChainId (chainId eth)
      in read_value log0
           (useCall rpc
              (if \<not> truthy_string a then None
               else
                 (case contract of
                    None \<Rightarrow> None
                  | Some c \<Rightarrow>
                      Some \<lparr>call_contract = c, call_method = ''isApprovedForAll'',
                            call_args = [a, marketplace (CONTRACTS chain)]\<rparr>))))"

section \<open>Call/notification adapter\<close>

datatype TransactionStatus =
  None_status | PendingSignature | Mining | Success | Fail | Exception

record UseContractNotificationType =
  status :: TransactionStatus
  errorMessage :: string
  miningMessage :: string
  successMessage :: string

text \<open>
  What the effect does to the outside is kept as a trace: a call of the action's
  \<open>resetState\<close>, or a call of the toast library with its type, its message, the \<open>id\<close> and
  \<open>duration\<close> options passed (no duration option: the library's default for the type,
  which for a loading toast is never to dismiss it), and the identity the toast gets.
\<close>

datatype toast_type = error_toast | loading_toast | success_toast

record toast_shown =
  toast_kind :: toast_type
  toast_message :: string
  id_option :: string
  duration_option :: "nat option"
  toast_id :: string

datatype effect = ResetState | Toast toast_shown

text \<open>
  The state the effect runs in: the hook's \<open>toastRef\<close>, the toast library's counter of
  generated identities, and the trace so far.
\<close>

record world =
  toastRef :: string
  genCount :: nat
  trace :: "effect list"

definition resetState :: "world \<Rightarrow> world" where
  "resetState w = w\<lparr>trace := trace w @ [ResetState]\<rparr>"

text \<open>
  The toast library: a toast keeps the \<open>id\<close> option when it is truthy and gets a freshly
  generated identity (the next counter value, as its decimal numeral) otherwise; the call returns
  the toast's identity. A toast issued under the identity of an earlier one replaces it.
\<close>

definition genId :: "world \<Rightarrow> string \<times> world" where
  "genId w = (decimal (Suc (genCount w)), w\<lparr>genCount := Suc (genCount w)\<rparr>)"

definition toast :: "toast_type \<Rightarrow> string \<Rightarrow> string \<Rightarrow> nat option \<Rightarrow> world \<Rightarrow> string \<times> world" where
  "toast ty msg i dur w =
     (let (tid, w1) = (if i \<noteq> [] then (i, w) else genId w)
      in (tid, w1\<lparr>trace := trace w1 @
                     [Toast \<lparr>toast_kind = ty, toast_message = msg, id_option = i,
                             duration_option = dur, toast_id = tid\<rparr>]\<rparr>))"

text \<open>
  The body of the effect of \<open>useContractNotification\<close>, run once for the status observed.
\<close>

definition useContractNotification :: "UseContractNotificationType \<Rightarrow> world \<Rightarrow> world" where
  "useContractNotification p w =
     (case status p of
        Exception \<Rightarrow>
          (let w1 = resetState w in
           if errorMessage p = [] then w1
           else (let (toastId, w2) = toast error_toast (errorMessage p) (toastRef w1) (Some 6000) w1
                 in w2\<lparr>toastRef := toastId\<rparr>))
      | Fail \<Rightarrow>
          (let w1 = resetState w in
           if errorMessage p = [] then w1
           else (let (toastId, w2) = toast error_toast (errorMessage p) (toastRef w1) (Some 6000) w1
                 in w2\<lparr>toastRef := toastId\<rparr>))
      | Mining \<Rightarrow>
          (if miningMessage p = [] then w
           else (let (toastId, w1) = toast loading_toast (miningMessage p) (toastRef w) None w
                 in w1\<lparr>toastRef := toastId\<rparr>))
      | Success \<Rightarrow>
          (let w1 = resetState w in
           if successMessage p = [] then w1
           else (let (toastId, w2) = toast success_toast (successMessage p) (toastRef w1) (Some 6000) w1
                 in w2\<lparr>toastRef := toastId\<rparr>))
      | _ \<Rightarrow> w)"

text \<open>
  A hook instance starts with \<open>useRef("")\<close>; the effect runs once for every status the
  transaction tracker reports in turn.
\<close>

definition mounted :: "nat \<Rightarrow> world" where
  "mounted n = \<lparr>toastRef = [], genCount = n, trace = []\<rparr>"

definition observe :: "UseContractNotificationType \<Rightarrow> TransactionStatus list \<Rightarrow> world \<Rightarrow> world" where
  "observe p sts w = foldl (\<lambda>w' st. useContractNotification (p\<lparr>status := st\<rparr>) w') w sts"

text \<open>The notifications of a trace, in order.\<close>

fun notifications :: "effect list \<Rightarrow> toast_shown list" where
  "notifications [] = []"
| "notifications (ResetState # es) = notifications es"
| "notifications (Toast t # es) = t # notifications es"

section \<open>Action hooks\<close>

text \<open>
  A call of the SDK's \<open>send\<close> of a contract function: the method the hook bound, the
  arguments in order and the \<open>value\<close> of the overrides object when one is passed. \<open>send\<close>
  returns the promise of that transaction. An action callable is described by the sends
  it made and by what it returned (\<open>None\<close>: undefined).
\<close>

record send_call =
  send_method :: string
  send_args :: "js_value list"
  send_value :: "js_value option"

datatype promise = TransactionPromise send_call

record action =
  sent :: "send_call list"
  returned :: "promise option"

definition inert :: action where
  "inert = \<lparr>sent = [], returned = None\<rparr>"

definition send :: "string \<Rightarrow> js_value list \<Rightarrow> js_value option \<Rightarrow> send_call \<times> promise" where
  "send m xs v =
     (let c = \<lparr>send_method = m, send_args = xs, send_value = v\<rparr> in (c, TransactionPromise c))"

text \<open>\<open>onApprove\<close> of \<open>useSetApprovalForAll\<close>; the address is the marketplace's of the chain.\<close>

definition onApprove :: "string option \<Rightarrow> js_value \<Rightarrow> action" where
  "onApprove a approved =
     (if \<not> truthy_string a \<or> loosely_undefined approved then inert
      else (let (c, pr) = send ''setApprovalForAll'' [String (the a), approved] None
            in \<lparr>sent = [c], returned = Some pr\<rparr>))"

definition useSetApprovalForAll_onApprove ::
  "(nat \<Rightarrow> chain_contracts) \<Rightarrow> ethers \<Rightarrow> js_value \<Rightarrow> action" where
  "useSetApprovalForAll_onApprove CONTRACTS eth approved =
     onApprove (marketplace (CONTRACTS (useChainId (chainId eth)))) approved"

text \<open>
  \<open>onCreateListing\<close>: \<open>parseEther\<close> (a parameter: the library's conversion of a decimal
  ether amount to wei) throws on a string that is no amount and on a value that is no
  string, and then nothing is sent.
\<close>

definition parseEther_value :: "(string \<Rightarrow> js_error + int) \<Rightarrow> js_value \<Rightarrow> js_error + js_value" where
  "parseEther_value parseEther v =
     (case v of
        String s \<Rightarrow> (case parseEther s of Inl e \<Rightarrow> Inl e | Inr wei \<Rightarrow> Inr (BigNumber wei))
      | _ \<Rightarrow> Inl (Error ''value must be a string''))"

definition onCreateListing ::
  "(string \<Rightarrow> js_error + int) \<Rightarrow> js_value \<Rightarrow> js_value \<Rightarrow> js_error + action" where
  "onCreateListing parseEther price tokenId =
     (if \<not> truthy price \<or> \<not> truthy tokenId then Inr inert
      else
        (case parseEther_value parseEther price of
           Inl e \<Rightarrow> Inl e
         | Inr wei \<Rightarrow>
             (let (c, pr) = send ''setOffer'' [wei, tokenId] None
              in Inr \<lparr>sent = [c], returned = Some pr\<rparr>)))"

definition onRemoveListing :: "js_value \<Rightarrow> action" where
  "onRemoveListing tokenId =
     (if \<not> truthy tokenId then inert
      else (let (c, pr) = send ''removeOffer'' [tokenId] None
            in \<lparr>sent = [c], returned = Some pr\<rparr>))"

text \<open>
  \<open>onCreate\<close> of \<open>useCreateGen0Kitty\<close>, for the Gen0 price read from the contract and the
  genes; the hook itself computes the genes when it renders and throws when the encoder
  does.
\<close>

definition onCreate :: "js_value \<Rightarrow> nat \<Rightarrow> action" where
  "onCreate gen0Price genes =
     (if \<not> truthy gen0Price then inert
      else (let (c, pr) = send ''createKittyGen0'' [BigNumber (int genes)] (Some gen0Price)
            in \<lparr>sent = [c], returned = Some pr\<rparr>))"

definition useCreateGen0Kitty_onCreate :: "DNA \<Rightarrow> js_value \<Rightarrow> js_error + action" where
  "useCreateGen0Kitty_onCreate dna gen0Price =
     (case useDnaToGenes dna of
        Inl e \<Rightarrow> Inl e
      | Inr genes \<Rightarrow> Inr (onCreate gen0Price genes))"

text \<open>\<open>onBreed\<close>: an arrow function whose body is the \<open>send\<close> itself.\<close>

definition onBreed :: "js_value \<Rightarrow> js_value \<Rightarrow> action" where
  "onBreed momId dadId =
     (let (c, pr) = send ''breed'' [momId, dadId] None
      in \<lparr>sent = [c], returned = Some pr\<rparr>)"

text \<open>\<open>onBuy\<close>: the \<open>send\<close> is a statement of its own; the function then ends.\<close>

definition onBuy :: "js_value \<Rightarrow> js_value \<Rightarrow> action" where
  "onBuy price tokenId =
     (if \<not> truthy tokenId \<or> \<not> truthy price then inert
      else (let (c, pr) = send ''buyKitty'' [tokenId] (Some price)
            in \<lparr>sent = [c], returned = None\<rparr>))"









section \<open>The read hooks in the words of their specification\<close>

text \<open>
  What a read-value hook is to do with the call it prepared (none when the handle, or an
  argument the call needs, is missing): issue it, and then surface nothing while the
  result is unknown, log the message and surface nothing on an error, and surface the
  first returned value on success. \<open>log0\<close> is what resolving the contract logged.
\<close>

definition reads_spec :: "(Call \<Rightarrow> CallResult) \<Rightarrow> console \<Rightarrow> Call option \<Rightarrow> read_hook" where
  "reads_spec rpc log0 c =
     (case c of
        None \<Rightarrow> \<lparr>calls = [], logged = log0, result = Undefined\<rparr>
      | Some call \<Rightarrow>
          (case rpc call of
             None \<Rightarrow> \<lparr>calls = [call], logged = log0, result = Undefined\<rparr>
           | Some (Inl e) \<Rightarrow>
               \<lparr>calls = [call], logged = log0 @ [[Text (error_message e)]], result = Undefined\<rparr>
           | Some (Inr vs) \<Rightarrow>
               \<lparr>calls = [call], logged = log0,
                result = (case vs of [] \<Rightarrow> Undefined | v # _ \<Rightarrow> v)\<rparr>))"

section \<open>The identity of the next notification\<close>

text \<open>
  The identity a toast gets when it is issued under the current handle: the handle's,
  unless the handle is still empty and the library generates one.
\<close>

definition issued_identity :: "world \<Rightarrow> string" where
  "issued_identity w =
     (if toastRef w \<noteq> [] then toastRef w else decimal (Suc (genCount w)))"

text \<open>The notifications one run of the effect adds to the trace.\<close>

definition issued :: "UseContractNotificationType \<Rightarrow> world \<Rightarrow> toast_shown list" where
  "issued p w = notifications (drop (length (trace w)) (trace (useContractNotification p w)))"

section \<open>Sample inputs\<close>

text \<open>
  Concrete inputs for the instances below: a wallet connected to the test network, a
  configuration with both contracts deployed, and a stand-in for the library's address
  validation that accepts \<open>0x\<close> followed by forty characters.
\<close>

definition sample_isAddress :: "string \<Rightarrow> bool" where
  "sample_isAddress s = (length s = 42 \<and> take 2 s = ''0x'')"

definition sample_kitty :: string where
  "sample_kitty = ''0x1111111111111111111111111111111111111111''"

definition sample_marketplace :: string where
  "sample_marketplace = ''0x2222222222222222222222222222222222222222''"

definition sample_account :: string where
  "sample_account = ''0x3333333333333333333333333333333333333333''"

definition sample_ethers :: ethers where
  "sample_ethers =
     \<lparr>library = Some (Web3Provider ''mumbai''), account = Some sample_account,
      chainId = Some 80001\<rparr>"

definition sample_CONTRACTS :: "nat \<Rightarrow> chain_contracts" where
  "sample_CONTRACTS c = \<lparr>kitty = Some sample_kitty, marketplace = Some sample_marketplace\<rparr>"

definition sample_messages :: UseContractNotificationType where
  "sample_messages =
     \<lparr>status = None_status, errorMessage = ''Error - buy kitty'',
      miningMessage = ''Loading - buy kitty...'', successMessage = ''Success - buy kitty''\<rparr>"

section \<open>Properties of the domain encoder\<close>

lemma foldl_append_strings:
  "foldl (\<lambda>genes v. genes @ f v) acc vs = acc @ concat (map f vs)"
  by (induction vs arbitrary: acc) simp_all

lemma convertDnaToGenes_concat:
  "convertDnaToGenes dna = BigNumber_from (concat (map Number_toString (Object_values dna)))"
  by (simp add: convertDnaToGenes_def foldl_append_strings)

lemma is_digit_digit_char: "d < 10 \<Longrightarrow> is_digit (digit_char d)"
  by (simp add: is_digit_def digit_char_def)

lemma digit_value_digit_char: "d < 10 \<Longrightarrow> digit_value (digit_char d) = d"
  by (simp add: digit_value_def digit_char_def)

lemma digit_value_less: "is_digit c \<Longrightarrow> digit_value c < 10"
  by (auto simp: is_digit_def digit_value_def)

lemma digit_value_inj:
  assumes "is_digit c" "is_digit c'" "digit_value c = digit_value c'"
  shows "c = c'"
proof -
  from assms have "(of_char c :: nat) = of_char c'"
    unfolding is_digit_def digit_value_def by arith
  then show ?thesis by simp
qed

lemma decimal_digits: "list_all is_digit (decimal n)"
proof (induction n rule: decimal.induct)
  case (1 n)
  show ?case
  proof (cases "n < 10")
    case True
    then show ?thesis by (simp add: decimal.simps [of n] is_digit_digit_char)
  next
    case False
    with 1 show ?thesis by (simp add: decimal.simps [of n] is_digit_digit_char)
  qed
qed

lemma decimal_not_Nil: "decimal n \<noteq> []"
  by (simp add: decimal.simps [of n])

lemma length_decimal: "length (decimal n) = digits n"
proof (induction n rule: decimal.induct)
  case (1 n)
  show ?case
  proof (cases "n < 10")
    case True
    then show ?thesis by (simp add: decimal.simps [of n] digits.simps [of n])
  next
    case False
    with 1 show ?thesis by (simp add: decimal.simps [of n] digits.simps [of n])
  qed
qed

lemma read_decimal_snoc: "read_decimal (s @ [c]) = 10 * read_decimal s + digit_value c"
  by (simp add: read_decimal_def)

lemma read_decimal_decimal: "read_decimal (decimal n) = n"
proof (induction n rule: decimal.induct)
  case (1 n)
  show ?case
  proof (cases "n < 10")
    case True
    then show ?thesis
      by (simp add: decimal.simps [of n] read_decimal_def digit_value_digit_char)
  next
    case False
    with 1 show ?thesis
      by (simp add: decimal.simps [of n] read_decimal_snoc digit_value_digit_char)
  qed
qed

lemma decimal_inj: "decimal m = decimal n \<Longrightarrow> m = n"
  by (metis read_decimal_decimal)

lemma Number_toString_inj:
  assumes "Number_toString v = Number_toString w"
  shows "v = w"
proof -
  from assms have "Rep_safe_integer v = Rep_safe_integer w"
    unfolding Number_toString_def by (rule decimal_inj)
  then show ?thesis by (simp only: Rep_safe_integer_inject)
qed

lemma Rep_safe_integer_Abs:
  "n \<le> 9007199254740991 \<Longrightarrow> Rep_safe_integer (Abs_safe_integer n) = n"
  by (simp add: Abs_safe_integer_inverse MAX_SAFE_INTEGER_def)




text \<open>Reading a concatenation: the first part is shifted by the length of the second.\<close>

lemma foldl_decimal_shift:
  "foldl (\<lambda>acc c. 10 * acc + digit_value c) a t
     = a * 10 ^ length t + foldl (\<lambda>acc c. 10 * acc + digit_value c) 0 t"
proof (induction t rule: rev_induct)
  case Nil
  show ?case by simp
next
  case (snoc c t)
  define x where "x = foldl (\<lambda>acc c. 10 * acc + digit_value c) a t"
  define y where "y = foldl (\<lambda>acc c. 10 * acc + digit_value c) 0 t"
  from snoc.IH have xy: "x = a * 10 ^ length t + y" by (simp only: x_def y_def)
  have "foldl (\<lambda>acc c. 10 * acc + digit_value c) a (t @ [c]) = 10 * x + digit_value c"
    by (simp add: x_def)
  also have "\<dots> = a * 10 ^ length (t @ [c]) + (10 * y + digit_value c)"
    unfolding xy by (simp add: distrib_left)
  also have "10 * y + digit_value c = foldl (\<lambda>acc c. 10 * acc + digit_value c) 0 (t @ [c])"
    by (simp add: y_def)
  finally show ?case .
qed

lemma read_decimal_append:
  "read_decimal (s @ t) = read_decimal s * 10 ^ length t + read_decimal t"
  unfolding read_decimal_def foldl_append by (rule foldl_decimal_shift)

lemma read_decimal_concat: "read_decimal (concat (map decimal ns)) = genes_number ns"
proof (induction ns rule: rev_induct)
  case Nil
  show ?case by (simp add: read_decimal_def genes_number_def)
next
  case (snoc n ns)
  have "read_decimal (concat (map decimal (ns @ [n])))
          = read_decimal (concat (map decimal ns)) * 10 ^ digits n + n"
    by (simp add: read_decimal_append length_decimal read_decimal_decimal)
  also have "\<dots> = genes_number ns * 10 ^ digits n + n" by (simp add: snoc.IH)
  also have "\<dots> = genes_number (ns @ [n])" by (simp add: genes_number_def)
  finally show ?case .
qed

lemma foldl_decimal_inj:
  assumes "length xs = length ys" "list_all is_digit xs" "list_all is_digit ys"
    and "foldl (\<lambda>acc c. 10 * acc + digit_value c) a xs
         = foldl (\<lambda>acc c. 10 * acc + digit_value c) b ys"
  shows "a = b \<and> xs = ys"
  using assms
proof (induction xs ys arbitrary: a b rule: list_induct2)
  case Nil
  then show ?case by simp
next
  case (Cons x xs y ys)
  from Cons.prems have dx: "is_digit x" and dy: "is_digit y"
    and dxs: "list_all is_digit xs" and dys: "list_all is_digit ys" by simp_all
  from Cons.prems have "foldl (\<lambda>acc c. 10 * acc + digit_value c) (10 * a + digit_value x) xs
         = foldl (\<lambda>acc c. 10 * acc + digit_value c) (10 * b + digit_value y) ys" by simp
  from Cons.IH [OF dxs dys this]
  have eq: "10 * a + digit_value x = 10 * b + digit_value y" and tl: "xs = ys" by simp_all
  have lx: "digit_value x < 10" and ly: "digit_value y < 10"
    using dx dy by (simp_all add: digit_value_less)
  from eq lx ly have "a = b" and "digit_value x = digit_value y" by arith+
  with dx dy tl show ?case by (simp add: digit_value_inj)
qed

lemma read_decimal_inj:
  "length xs = length ys \<Longrightarrow> list_all is_digit xs \<Longrightarrow> list_all is_digit ys \<Longrightarrow>
   read_decimal xs = read_decimal ys \<Longrightarrow> xs = ys"
  unfolding read_decimal_def using foldl_decimal_inj by blast

lemma concat_toString_digits: "list_all is_digit (concat (map Number_toString vs))"
  by (induction vs) (simp_all add: Number_toString_def decimal_digits)

lemma concat_toString_Nil: "concat (map Number_toString vs) = [] \<longleftrightarrow> vs = []"
  by (cases vs) (simp_all add: Number_toString_def decimal_not_Nil)

lemma fixed_width_lengths:
  "list_all2 (\<lambda>v w. length (Number_toString v) = length (Number_toString w)) vs ws \<Longrightarrow>
   length (concat (map Number_toString vs)) = length (concat (map Number_toString ws))"
  by (induction vs ws rule: list_all2_induct) simp_all

lemma fixed_width_concat_inj:
  "list_all2 (\<lambda>v w. length (Number_toString v) = length (Number_toString w)) vs ws \<Longrightarrow>
   concat (map Number_toString vs) = concat (map Number_toString ws) \<Longrightarrow> vs = ws"
  by (induction vs ws rule: list_all2_induct) (auto dest: Number_toString_inj)

text \<open>The result of the encoder as a number: it throws on the empty record only.\<close>

lemma convertDnaToGenes_number:
  "convertDnaToGenes dna =
     (if dna = [] then Inl (Error ''invalid BigNumber string'')
      else Inr (genes_number (map (\<lambda>(name, v). Rep_safe_integer v) dna)))"
proof -
  have m: "map Number_toString (Object_values dna)
             = map decimal (map (\<lambda>(name, v). Rep_safe_integer v) dna)"
    by (simp add: Object_values_def Number_toString_def case_prod_unfold)
  show ?thesis
  proof (cases "dna = []")
    case True
    then show ?thesis
      by (simp add: convertDnaToGenes_concat Object_values_def BigNumber_from_def)
  next
    case False
    then have "concat (map Number_toString (Object_values dna)) \<noteq> []"
      by (simp only: concat_toString_Nil Object_values_def map_is_Nil_conv not_False_eq_True)
    then have "convertDnaToGenes dna
                 = Inr (read_decimal (concat (map Number_toString (Object_values dna))))"
      by (simp add: convertDnaToGenes_concat BigNumber_from_def concat_toString_digits)
    moreover have "read_decimal (concat (map Number_toString (Object_values dna)))
                     = genes_number (map (\<lambda>(name, v). Rep_safe_integer v) dna)"
      unfolding m by (rule read_decimal_concat)
    ultimately show ?thesis using False by simp
  qed
qed

text \<open>
  Claim C1, as amended. For DNA records whose trait values are non-negative safe
  integers (at most \<open>2\<^sup>5\<^sup>3 - 1\<close>, the values of the type): when two records have the same
  number of fields and corresponding fields have decimal strings of the same length (a
  fixed width per field), and the decimal string of at least one field differs, the
  encoder succeeds on both and yields different genes.
\<close>

theorem convertDnaToGenes_fixed_width_injective:
  assumes width: "list_all2 (\<lambda>v w. length (Number_toString v) = length (Number_toString w))
                    (Object_values d1) (Object_values d2)"
    and differ: "map Number_toString (Object_values d1) \<noteq> map Number_toString (Object_values d2)"
  shows "\<exists>g1 g2. convertDnaToGenes d1 = Inr g1 \<and> convertDnaToGenes d2 = Inr g2 \<and> g1 \<noteq> g2"
proof -
  let ?s1 = "concat (map Number_toString (Object_values d1))"
  let ?s2 = "concat (map Number_toString (Object_values d2))"
  from differ have ne: "Object_values d1 \<noteq> Object_values d2" by auto
  from width have len: "length (Object_values d1) = length (Object_values d2)"
    by (rule list_all2_lengthD)
  with ne have "Object_values d1 \<noteq> []" and "Object_values d2 \<noteq> []" by auto
  then have n1: "?s1 \<noteq> []" and n2: "?s2 \<noteq> []"
    by (simp_all only: concat_toString_Nil not_False_eq_True)
  have g1: "convertDnaToGenes d1 = Inr (read_decimal ?s1)"
    using n1 by (simp add: convertDnaToGenes_concat BigNumber_from_def concat_toString_digits)
  have g2: "convertDnaToGenes d2 = Inr (read_decimal ?s2)"
    using n2 by (simp add: convertDnaToGenes_concat BigNumber_from_def concat_toString_digits)
  have "read_decimal ?s1 \<noteq> read_decimal ?s2"
  proof
    assume "read_decimal ?s1 = read_decimal ?s2"
    with fixed_width_lengths [OF width] have "?s1 = ?s2"
      by (intro read_decimal_inj concat_toString_digits)
    then have "Object_values d1 = Object_values d2" by (rule fixed_width_concat_inj [OF width])
    with ne show False by contradiction
  qed
  with g1 g2 show ?thesis by blast
qed

text \<open>The fixed-width theorem at \<open>{a: 10, b: 23}\<close> and \<open>{a: 12, b: 30}\<close>: 1023 and 1230.\<close>

theorem convertDnaToGenes_fixed_width_injective_witness:
  "convertDnaToGenes [(''a'', Abs_safe_integer 10), (''b'', Abs_safe_integer 23)] = Inr 1023 \<and>
   convertDnaToGenes [(''a'', Abs_safe_integer 12), (''b'', Abs_safe_integer 30)] = Inr 1230"
proof -
  let ?d1 = "[(''a'', Abs_safe_integer 10), (''b'', Abs_safe_integer 23)]"
  let ?d2 = "[(''a'', Abs_safe_integer 12), (''b'', Abs_safe_integer 30)]"
  have s: "decimal 10 = ''10''" "decimal 23 = ''23''" "decimal 12 = ''12''" "decimal 30 = ''30''"
    by code_simp+
  have w: "list_all2 (\<lambda>v w. length (Number_toString v) = length (Number_toString w))
             (Object_values ?d1) (Object_values ?d2)"
    by (simp add: Object_values_def Number_toString_def Rep_safe_integer_Abs s)
  have d: "map Number_toString (Object_values ?d1) \<noteq> map Number_toString (Object_values ?d2)"
    by (simp add: Object_values_def Number_toString_def Rep_safe_integer_Abs s)
  from convertDnaToGenes_fixed_width_injective [OF w d]
  obtain g1 g2 where "convertDnaToGenes ?d1 = Inr g1"
    and "convertDnaToGenes ?d2 = Inr g2" and "g1 \<noteq> g2" by blast
  moreover have "genes_number [10, 23] = 1023" "genes_number [12, 30] = 1230"
    by code_simp+
  then have "convertDnaToGenes ?d1 = Inr 1023" "convertDnaToGenes ?d2 = Inr 1230"
    by (simp_all add: convertDnaToGenes_number Rep_safe_integer_Abs)
  ultimately show ?thesis by simp
qed

text \<open>
  Without fixed widths the encoder collides: \<open>{a: 1, b: 23}\<close> and \<open>{a: 12, b: 3}\<close> differ in
  the decimal strings of both fields and are both encoded as 123.
\<close>

theorem convertDnaToGenes_collision:
  "map Number_toString (Object_values [(''a'', Abs_safe_integer 1), (''b'', Abs_safe_integer 23)])
     \<noteq> map Number_toString
          (Object_values [(''a'', Abs_safe_integer 12), (''b'', Abs_safe_integer 3)]) \<and>
   convertDnaToGenes [(''a'', Abs_safe_integer 1), (''b'', Abs_safe_integer 23)] = Inr 123 \<and>
   convertDnaToGenes [(''a'', Abs_safe_integer 12), (''b'', Abs_safe_integer 3)] = Inr 123"
proof -
  have s: "decimal 1 = ''1''" "decimal 23 = ''23''" "decimal 12 = ''12''" "decimal 3 = ''3''"
    by code_simp+
  have g: "genes_number [1, 23] = 123" "genes_number [12, 3] = 123"
    by code_simp+
  show ?thesis
    by (simp add: Object_values_def Number_toString_def Rep_safe_integer_Abs s
        convertDnaToGenes_number g del: One_nat_def)
qed



section \<open>Properties of the chain resolver, the contract resolver and the read hooks\<close>

text \<open>
  Claim C6. The chain resolver returns the connected chain when it is one of the two
  recognised networks and the test network for every other input, the undefined chain
  of a wallet that is not connected included. It is a function from every possible
  input to a chain identifier: no branch of the \<open>switch\<close> throws.
\<close>

theorem useChainId_total:
  "(c = Some Mumbai \<or> c = Some Polygon \<longrightarrow> Some (useChainId c) = c) \<and>
   (c \<noteq> Some Mumbai \<and> c \<noteq> Some Polygon \<longrightarrow> useChainId c = Mumbai)"
  by (auto simp: useChainId_def split: option.splits)

text \<open>The resolver on Polygon, on Mumbai, on chain 1 and without a connected wallet.\<close>

theorem useChainId_total_witness:
  "useChainId (Some 137) = 137 \<and> useChainId (Some 80001) = 80001 \<and>
   useChainId (Some 1) = 80001 \<and> useChainId None = 80001"
  using useChainId_total [of "Some 137"] useChainId_total [of "Some 80001"]
    useChainId_total [of "Some 1"] useChainId_total [of None]
  by (simp add: Mumbai_def Polygon_def)

lemma read_value_useCall:
  "read_value log0 (useCall rpc c) = reads_spec rpc log0 c"
  by (simp add: read_value_def useCall_def reads_spec_def first_value_def
      split: option.splits sum.splits list.splits)



lemma useTotalSupply_spec:
  "useTotalSupply isAddress CONTRACTS eth rpc =
     reads_spec rpc (snd (useKittyContract isAddress CONTRACTS eth (Some False)))
       (map_option (\<lambda>c. \<lparr>call_contract = c, call_method = ''totalSupply'', call_args = []\<rparr>)
          (fst (useKittyContract isAddress CONTRACTS eth (Some False))))"
  by (cases "useKittyContract isAddress CONTRACTS eth (Some False)")
     (simp add: useTotalSupply_def read_value_useCall split: option.splits)

lemma useGen0Price_spec:
  "useGen0Price isAddress CONTRACTS eth rpc =
     reads_spec rpc (snd (useKittyContract isAddress CONTRACTS eth (Some False)))
       (map_option (\<lambda>c. \<lparr>call_contract = c, call_method = ''getGen0Price'', call_args = []\<rparr>)
          (fst (useKittyContract isAddress CONTRACTS eth (Some False))))"
  by (cases "useKittyContract isAddress CONTRACTS eth (Some False)")
     (simp add: useGen0Price_def read_value_useCall split: option.splits)

lemma useIsApprovedForAll_spec:
  "useIsApprovedForAll isAddress CONTRACTS eth rpc owner =
     reads_spec rpc (snd (useKittyContract isAddress CONTRACTS eth None))
       (if truthy_string owner
        then map_option
               (\<lambda>c. \<lparr>call_contract = c, call_method = ''isApprovedForAll'',
                      call_args = [owner, marketplace (CONTRACTS (useChainId (chainId eth)))]\<rparr>)
               (fst (useKittyContract isAddress CONTRACTS eth None))
        else None)"
  by (cases "useKittyContract isAddress CONTRACTS eth None")
     (simp add: useIsApprovedForAll_def read_value_useCall split: option.splits)












text \<open>
  Claim C9, as amended. \<open>useTotalSupply\<close> and \<open>useGen0Price\<close> issue one read-only call
  against the resolved kitty contract when there is one, and none otherwise;
  \<open>useIsApprovedForAll\<close> issues its call when the contract is resolved and the owner
  address is present, and none otherwise. In each, a failed call logs the error's
  message and surfaces undefined, and a successful one surfaces the first returned
  value.
\<close>

theorem read_hooks_spec:
  "useTotalSupply isAddress CONTRACTS eth rpc =
     reads_spec rpc (snd (useKittyContract isAddress CONTRACTS eth (Some False)))
       (map_option (\<lambda>c. \<lparr>call_contract = c, call_method = ''totalSupply'', call_args = []\<rparr>)
          (fst (useKittyContract isAddress CONTRACTS eth (Some False)))) \<and>
   useGen0Price isAddress CONTRACTS eth rpc =
     reads_spec rpc (snd (useKittyContract isAddress CONTRACTS eth (Some False)))
       (map_option (\<lambda>c. \<lparr>call_contract = c, call_method = ''getGen0Price'', call_args = []\<rparr>)
          (fst (useKittyContract isAddress CONTRACTS eth (Some False)))) \<and>
   useIsApprovedForAll isAddress CONTRACTS eth rpc owner =
     reads_spec rpc (snd (useKittyContract isAddress CONTRACTS eth None))
       (if truthy_string owner
        then map_option
               (\<lambda>c. \<lparr>call_contract = c, call_method = ''isApprovedForAll'',
                      call_args = [owner, marketplace (CONTRACTS (useChainId (chainId eth)))]\<rparr>)
               (fst (useKittyContract isAddress CONTRACTS eth None))
        else None)"
  using useTotalSupply_spec useGen0Price_spec useIsApprovedForAll_spec by blast

lemma sample_kitty_contract:
  "useKittyContract sample_isAddress sample_CONTRACTS sample_ethers w =
     (Some \<lparr>contract_address = sample_kitty, contract_interface = KittyContractInterface,
            signerOrProvider =
              (if withSignerIfPossible_default w
               then JsonRpcSigner (Web3Provider ''mumbai'') sample_account
               else Provider (Web3Provider ''mumbai''))\<rparr>, [])"
  by (simp add: useKittyContract_def useContract_def getContract_def sample_CONTRACTS_def
      sample_ethers_def sample_isAddress_def sample_kitty_def sample_account_def
      truthy_string_def AddressZero_def getProviderOrSigner_def getSigner_def)

text \<open>
  The three hooks on the sample wallet: a successful \<open>totalSupply\<close>, a failed
  \<open>getGen0Price\<close>, a successful \<open>isApprovedForAll\<close>.
\<close>

theorem read_hooks_spec_witness:
  "useTotalSupply sample_isAddress sample_CONTRACTS sample_ethers (\<lambda>c. Some (Inr [BigNumber 7, BigNumber 9]))
     = \<lparr>calls = [\<lparr>call_contract =
                    \<lparr>contract_address = sample_kitty, contract_interface = KittyContractInterface,
                     signerOrProvider = Provider (Web3Provider ''mumbai'')\<rparr>,
                  call_method = ''totalSupply'', call_args = []\<rparr>],
        logged = [], result = BigNumber 7\<rparr> \<and>
   logged (useGen0Price sample_isAddress sample_CONTRACTS sample_ethers
             (\<lambda>c. Some (Inl (Error ''call revert exception'')))) = [[Text ''call revert exception'']] \<and>
   result (useGen0Price sample_isAddress sample_CONTRACTS sample_ethers
             (\<lambda>c. Some (Inl (Error ''call revert exception'')))) = Undefined \<and>
   result (useIsApprovedForAll sample_isAddress sample_CONTRACTS sample_ethers
             (\<lambda>c. Some (Inr [Boolean True])) (Some sample_account)) = Boolean True"
  using read_hooks_spec [of sample_isAddress sample_CONTRACTS sample_ethers
      "\<lambda>c. Some (Inr [BigNumber 7, BigNumber 9])"]
    read_hooks_spec [of sample_isAddress sample_CONTRACTS sample_ethers
      "\<lambda>c. Some (Inl (Error ''call revert exception''))"]
    read_hooks_spec [of sample_isAddress sample_CONTRACTS sample_ethers
      "\<lambda>c. Some (Inr [Boolean True])" "Some sample_account"]
  by (simp add: sample_kitty_contract reads_spec_def withSignerIfPossible_default_def
      error_message_def truthy_string_def sample_account_def)

text \<open>
  With the kitty contract resolved and no owner address, \<open>useIsApprovedForAll\<close> issues
  no call.
\<close>

theorem useIsApprovedForAll_no_owner_no_call:
  "fst (useKittyContract sample_isAddress sample_CONTRACTS sample_ethers None) =
     Some \<lparr>contract_address = sample_kitty, contract_interface = KittyContractInterface,
           signerOrProvider = JsonRpcSigner (Web3Provider ''mumbai'') sample_account\<rparr> \<and>
   calls (useIsApprovedForAll sample_isAddress sample_CONTRACTS sample_ethers
            (\<lambda>c. Some (Inr [Boolean True])) None) = []"
  by (simp add: useIsApprovedForAll_def sample_kitty_contract withSignerIfPossible_default_def
      truthy_string_def useCall_def read_value_def)

section \<open>Properties of the notification adapter\<close>

lemma toast_trace:
  "toast ty msg i dur w =
     (if i \<noteq> [] then i else decimal (Suc (genCount w)),
      w\<lparr>genCount := (if i \<noteq> [] then genCount w else Suc (genCount w)),
        trace := trace w @
          [Toast \<lparr>toast_kind = ty, toast_message = msg, id_option = i, duration_option = dur,
                  toast_id = (if i \<noteq> [] then i else decimal (Suc (genCount w)))\<rparr>]\<rparr>)"
  by (simp add: toast_def genId_def)

lemma trace_Exception:
  "status p = Exception \<or> status p = Fail \<Longrightarrow>
   trace (useContractNotification p w) =
     trace w @ ResetState #
       (if errorMessage p = [] then []
        else [Toast \<lparr>toast_kind = error_toast, toast_message = errorMessage p,
                      id_option = toastRef w, duration_option = Some 6000,
                      toast_id = issued_identity w\<rparr>])"
  by (auto simp: useContractNotification_def toast_trace resetState_def issued_identity_def)

lemma trace_Mining:
  "status p = Mining \<Longrightarrow>
   trace (useContractNotification p w) =
     trace w @
       (if miningMessage p = [] then []
        else [Toast \<lparr>toast_kind = loading_toast, toast_message = miningMessage p,
                      id_option = toastRef w, duration_option = None,
                      toast_id = issued_identity w\<rparr>])"
  by (auto simp: useContractNotification_def toast_trace issued_identity_def)

lemma trace_Success:
  "status p = Success \<Longrightarrow>
   trace (useContractNotification p w) =
     trace w @ ResetState #
       (if successMessage p = [] then []
        else [Toast \<lparr>toast_kind = success_toast, toast_message = successMessage p,
                      id_option = toastRef w, duration_option = Some 6000,
                      toast_id = issued_identity w\<rparr>])"
  by (auto simp: useContractNotification_def toast_trace resetState_def issued_identity_def)

lemma trace_other:
  "status p = None_status \<or> status p = PendingSignature \<Longrightarrow> useContractNotification p w = w"
  by (auto simp: useContractNotification_def)

text \<open>
  Claim C3, as amended. On \<open>Exception\<close> or \<open>Fail\<close> the adapter resets the action's state
  and then, if the error message is non-empty, shows an error notification of 6000 ms
  under the current handle; on \<open>Mining\<close>, if the mining message is non-empty, it shows
  a loading notification without a duration under the current handle, and does nothing
  when that message is empty; on \<open>Success\<close> it resets the state and then, if the success
  message is non-empty, shows a success notification of 6000 ms under the current
  handle; on \<open>None\<close> and \<open>PendingSignature\<close> it changes nothing.
\<close>

theorem useContractNotification_by_status:
  "(status p = Exception \<or> status p = Fail \<longrightarrow>
      trace (useContractNotification p w) =
        trace w @ ResetState #
          (if errorMessage p = [] then []
           else [Toast \<lparr>toast_kind = error_toast, toast_message = errorMessage p,
                         id_option = toastRef w, duration_option = Some 6000,
                         toast_id = issued_identity w\<rparr>])) \<and>
   (status p = Mining \<longrightarrow>
      trace (useContractNotification p w) =
        trace w @
          (if miningMessage p = [] then []
           else [Toast \<lparr>toast_kind = loading_toast, toast_message = miningMessage p,
                         id_option = toastRef w, duration_option = None,
                         toast_id = issued_identity w\<rparr>])) \<and>
   (status p = Success \<longrightarrow>
      trace (useContractNotification p w) =
        trace w @ ResetState #
          (if successMessage p = [] then []
           else [Toast \<lparr>toast_kind = success_toast, toast_message = successMessage p,
                         id_option = toastRef w, duration_option = Some 6000,
                         toast_id = issued_identity w\<rparr>])) \<and>
   (status p = None_status \<or> status p = PendingSignature \<longrightarrow> useContractNotification p w = w)"
  using trace_Exception [of p w] trace_Mining [of p w] trace_Success [of p w] trace_other [of p w]
  by blast

text \<open>
  The adapter on \<open>Fail\<close> after mounting, on \<open>Mining\<close> with a handle already set, on
  \<open>Success\<close> without a success message, and on \<open>PendingSignature\<close>.
\<close>

theorem useContractNotification_by_status_witness:
  "trace (useContractNotification (sample_messages\<lparr>status := Fail\<rparr>) (mounted 0)) =
     [ResetState,
      Toast \<lparr>toast_kind = error_toast, toast_message = ''Error - buy kitty'', id_option = [],
             duration_option = Some 6000, toast_id = ''1''\<rparr>] \<and>
   trace (useContractNotification (sample_messages\<lparr>status := Mining\<rparr>)
            \<lparr>toastRef = ''7'', genCount = 9, trace = []\<rparr>) =
     [Toast \<lparr>toast_kind = loading_toast, toast_message = ''Loading - buy kitty...'',
             id_option = ''7'', duration_option = None, toast_id = ''7''\<rparr>] \<and>
   trace (useContractNotification (sample_messages\<lparr>status := Success, successMessage := []\<rparr>)
            (mounted 0)) = [ResetState] \<and>
   useContractNotification (sample_messages\<lparr>status := PendingSignature\<rparr>) (mounted 0) = mounted 0"
proof -
  have one: "decimal (Suc 0) = ''1''" by code_simp
  show ?thesis
    using useContractNotification_by_status [of "sample_messages\<lparr>status := Fail\<rparr>" "mounted 0"]
      useContractNotification_by_status [of "sample_messages\<lparr>status := Mining\<rparr>"
        "\<lparr>toastRef = ''7'', genCount = 9, trace = []\<rparr>"]
      useContractNotification_by_status
        [of "sample_messages\<lparr>status := Success, successMessage := []\<rparr>" "mounted 0"]
      useContractNotification_by_status [of "sample_messages\<lparr>status := PendingSignature\<rparr>" "mounted 0"]
    by (simp add: sample_messages_def mounted_def issued_identity_def one)
qed

text \<open>On \<open>Mining\<close> with an empty mining message the adapter shows no notification.\<close>

theorem useContractNotification_mining_unconfigured:
  "trace (useContractNotification (sample_messages\<lparr>status := Mining, miningMessage := []\<rparr>)
            (mounted 0)) = []"
  by (simp add: useContractNotification_def sample_messages_def mounted_def)

lemma issued_cases:
  "issued p w =
     (case status p of
        Exception \<Rightarrow> (if errorMessage p = [] then []
           else [\<lparr>toast_kind = error_toast, toast_message = errorMessage p,
                  id_option = toastRef w, duration_option = Some 6000,
                  toast_id = issued_identity w\<rparr>])
      | Fail \<Rightarrow> (if errorMessage p = [] then []
           else [\<lparr>toast_kind = error_toast, toast_message = errorMessage p,
                  id_option = toastRef w, duration_option = Some 6000,
                  toast_id = issued_identity w\<rparr>])
      | Mining \<Rightarrow> (if miningMessage p = [] then []
           else [\<lparr>toast_kind = loading_toast, toast_message = miningMessage p,
                  id_option = toastRef w, duration_option = None,
                  toast_id = issued_identity w\<rparr>])
      | Success \<Rightarrow> (if successMessage p = [] then []
           else [\<lparr>toast_kind = success_toast, toast_message = successMessage p,
                  id_option = toastRef w, duration_option = Some 6000,
                  toast_id = issued_identity w\<rparr>])
      | _ \<Rightarrow> [])"
  by (cases "status p")
     (simp_all add: issued_def trace_Exception trace_Mining trace_Success trace_other)

lemma toastRef_after:
  "toastRef (useContractNotification p w) =
     (if issued p w = [] then toastRef w else issued_identity w)"
  by (cases "status p")
     (auto simp: issued_cases useContractNotification_def toast_trace resetState_def
        issued_identity_def)

lemma handle_step:
  "(case issued p w of
      [] \<Rightarrow> toastRef (useContractNotification p w) = toastRef w
    | [t] \<Rightarrow> id_option t = toastRef w \<and> toast_id t = issued_identity w \<and>
             toastRef (useContractNotification p w) = toast_id t
    | _ \<Rightarrow> False)"
  by (cases "status p") (simp_all add: toastRef_after issued_cases)

lemma Mining_then_Success:
  assumes "miningMessage p \<noteq> []" "successMessage p \<noteq> []"
  shows "notifications (trace (observe p [Mining, Success] (mounted n))) =
     [\<lparr>toast_kind = loading_toast, toast_message = miningMessage p, id_option = [],
       duration_option = None, toast_id = decimal (Suc n)\<rparr>,
      \<lparr>toast_kind = success_toast, toast_message = successMessage p,
       id_option = decimal (Suc n), duration_option = Some 6000,
       toast_id = decimal (Suc n)\<rparr>]"
  using assms
  by (simp add: observe_def mounted_def useContractNotification_def toast_trace resetState_def
      decimal_not_Nil)

text \<open>
  Claim C8, as amended. One run of the effect issues at most one notification; the
  notification is issued under the handle as it was, and the handle is overwritten with
  the notification's identity (and keeps its value when nothing is issued). For the
  statuses \<open>Mining\<close>, \<open>Success\<close> observed after mounting, with non-empty mining and
  success messages, exactly two notifications are issued, and the second is issued under
  the identity of the first and keeps it.
\<close>

theorem notification_handle:
  "(case issued p w of
      [] \<Rightarrow> toastRef (useContractNotification p w) = toastRef w
    | [t] \<Rightarrow> id_option t = toastRef w \<and> toast_id t = issued_identity w \<and>
             toastRef (useContractNotification p w) = toast_id t
    | _ \<Rightarrow> False) \<and>
   (miningMessage p \<noteq> [] \<and> successMessage p \<noteq> [] \<longrightarrow>
      notifications (trace (observe p [Mining, Success] (mounted n))) =
        [\<lparr>toast_kind = loading_toast, toast_message = miningMessage p, id_option = [],
          duration_option = None, toast_id = decimal (Suc n)\<rparr>,
         \<lparr>toast_kind = success_toast, toast_message = successMessage p,
          id_option = decimal (Suc n), duration_option = Some 6000,
          toast_id = decimal (Suc n)\<rparr>])"
  using handle_step [of p w] Mining_then_Success [of p n] by blast

text \<open>The two notifications of \<open>Mining\<close>, \<open>Success\<close> for the sample messages.\<close>

theorem notification_handle_witness:
  "notifications (trace (observe sample_messages [Mining, Success] (mounted 0))) =
     [\<lparr>toast_kind = loading_toast, toast_message = ''Loading - buy kitty...'', id_option = [],
       duration_option = None, toast_id = ''1''\<rparr>,
      \<lparr>toast_kind = success_toast, toast_message = ''Success - buy kitty'',
       id_option = ''1'', duration_option = Some 6000, toast_id = ''1''\<rparr>]"
proof -
  have one: "decimal (Suc 0) = ''1''" by code_simp
  show ?thesis
    using notification_handle [of sample_messages "mounted 0" 0]
    by (simp add: sample_messages_def one)
qed

text \<open>
  With an empty mining message the statuses \<open>Mining\<close>, \<open>Success\<close> give one notification,
  not two.
\<close>

theorem Mining_unconfigured_one_notification:
  "notifications (trace (observe (sample_messages\<lparr>miningMessage := []\<rparr>) [Mining, Success]
      (mounted 0))) =
     [\<lparr>toast_kind = success_toast, toast_message = ''Success - buy kitty'', id_option = [],
       duration_option = Some 6000, toast_id = ''1''\<rparr>]"
proof -
  have one: "decimal (Suc 0) = ''1''" by code_simp
  show ?thesis
    by (simp add: observe_def mounted_def useContractNotification_def toast_trace resetState_def
        sample_messages_def one)
qed

section \<open>Properties of the action hooks\<close>

text \<open>
  Claim C4, as amended. \<open>onApprove\<close>, \<open>onCreateListing\<close>, \<open>onRemoveListing\<close> and \<open>onBuy\<close>
  send nothing and return nothing when an argument they guard is undefined (or falsy;
  for the approval flag: undefined or null); \<open>onCreate\<close> does so when the Gen0 price
  read from the contract is missing; \<open>onBreed\<close> has no guard and always forwards its
  two arguments to \<open>send\<close>.
\<close>

theorem action_guards:
  "(\<not> truthy_string a \<or> loosely_undefined approved \<longrightarrow> onApprove a approved = inert) \<and>
   (\<not> truthy price \<or> \<not> truthy tokenId \<longrightarrow>
      onCreateListing parseEther price tokenId = Inr inert) \<and>
   (\<not> truthy tokenId \<longrightarrow> onRemoveListing tokenId = inert) \<and>
   (\<not> truthy gen0Price \<longrightarrow> onCreate gen0Price genes = inert) \<and>
   (\<not> truthy tokenId \<or> \<not> truthy price \<longrightarrow> onBuy price tokenId = inert) \<and>
   sent (onBreed momId dadId) =
     [\<lparr>send_method = ''breed'', send_args = [momId, dadId], send_value = None\<rparr>]"
  by (simp add: onApprove_def onCreateListing_def onRemoveListing_def onCreate_def onBuy_def
      onBreed_def send_def Let_def)

text \<open>Each guarded callable with an undefined argument, and \<open>onBreed\<close> on two parents.\<close>

theorem action_guards_witness:
  "onApprove (Some sample_marketplace) Undefined = \<lparr>sent = [], returned = None\<rparr> \<and>
   onCreateListing (\<lambda>s. Inr 1) Undefined (Number 7) = Inr \<lparr>sent = [], returned = None\<rparr> \<and>
   onRemoveListing Undefined = \<lparr>sent = [], returned = None\<rparr> \<and>
   onCreate Undefined 1234 = \<lparr>sent = [], returned = None\<rparr> \<and>
   onBuy Undefined (Number 7) = \<lparr>sent = [], returned = None\<rparr> \<and>
   sent (onBreed (Number 1) (Number 2)) =
     [\<lparr>send_method = ''breed'', send_args = [Number 1, Number 2], send_value = None\<rparr>]"
  using action_guards [where a = "Some sample_marketplace" and approved = Undefined
      and price = Undefined and tokenId = "Number 7" and parseEther = "\<lambda>s. Inr 1"
      and ?gen0Price = Undefined and genes = 1234 and momId = "Number 1" and dadId = "Number 2"]
    action_guards [where tokenId = Undefined]
  by (simp add: inert_def)

text \<open>\<open>onBreed\<close> with an undefined mother sends \<open>breed(undefined, 2)\<close>.\<close>

theorem onBreed_unguarded:
  "onBreed Undefined (Number 2) =
     \<lparr>sent = [\<lparr>send_method = ''breed'', send_args = [Undefined, Number 2], send_value = None\<rparr>],
      returned = Some (TransactionPromise
        \<lparr>send_method = ''breed'', send_args = [Undefined, Number 2], send_value = None\<rparr>)\<rparr>"
  by (simp add: onBreed_def send_def Let_def)

text \<open>
  Claim C5. With truthy arguments every callable makes one \<open>send\<close>; \<open>onApprove\<close>,
  \<open>onCreateListing\<close> (when \<open>parseEther\<close> accepts the price), \<open>onRemoveListing\<close>, \<open>onCreate\<close>
  and \<open>onBreed\<close> return the promise of that transaction, and \<open>onBuy\<close> returns undefined.
\<close>

theorem action_forwarding:
  "(truthy_string a \<and> \<not> loosely_undefined approved \<longrightarrow>
      onApprove a approved =
        \<lparr>sent = [\<lparr>send_method = ''setApprovalForAll'', send_args = [String (the a), approved],
                  send_value = None\<rparr>],
         returned = Some (TransactionPromise
           \<lparr>send_method = ''setApprovalForAll'', send_args = [String (the a), approved],
            send_value = None\<rparr>)\<rparr>) \<and>
   (truthy price \<and> truthy tokenId \<and> parseEther_value parseEther price = Inr wei \<longrightarrow>
      onCreateListing parseEther price tokenId =
        Inr \<lparr>sent = [\<lparr>send_method = ''setOffer'', send_args = [wei, tokenId], send_value = None\<rparr>],
             returned = Some (TransactionPromise
               \<lparr>send_method = ''setOffer'', send_args = [wei, tokenId], send_value = None\<rparr>)\<rparr>) \<and>
   (truthy tokenId \<longrightarrow>
      onRemoveListing tokenId =
        \<lparr>sent = [\<lparr>send_method = ''removeOffer'', send_args = [tokenId], send_value = None\<rparr>],
         returned = Some (TransactionPromise
           \<lparr>send_method = ''removeOffer'', send_args = [tokenId], send_value = None\<rparr>)\<rparr>) \<and>
   (truthy gen0Price \<longrightarrow>
      onCreate gen0Price genes =
        \<lparr>sent = [\<lparr>send_method = ''createKittyGen0'', send_args = [BigNumber (int genes)],
                  send_value = Some gen0Price\<rparr>],
         returned = Some (TransactionPromise
           \<lparr>send_method = ''createKittyGen0'', send_args = [BigNumber (int genes)],
            send_value = Some gen0Price\<rparr>)\<rparr>) \<and>
   onBreed momId dadId =
     \<lparr>sent = [\<lparr>send_method = ''breed'', send_args = [momId, dadId], send_value = None\<rparr>],
      returned = Some (TransactionPromise
        \<lparr>send_method = ''breed'', send_args = [momId, dadId], send_value = None\<rparr>)\<rparr> \<and>
   (truthy tokenId \<and> truthy price \<longrightarrow>
      onBuy price tokenId =
        \<lparr>sent = [\<lparr>send_method = ''buyKitty'', send_args = [tokenId], send_value = Some price\<rparr>],
         returned = None\<rparr>)"
  by (simp add: onApprove_def onCreateListing_def onRemoveListing_def onCreate_def onBuy_def
      onBreed_def send_def Let_def)

text \<open>\<open>onBuy\<close> for price 5 and token 7 beside \<open>onRemoveListing\<close> for token 7.\<close>

theorem action_forwarding_witness:
  "onBuy (BigNumber 5) (Number 7) =
     \<lparr>sent = [\<lparr>send_method = ''buyKitty'', send_args = [Number 7],
               send_value = Some (BigNumber 5)\<rparr>],
      returned = None\<rparr> \<and>
   onRemoveListing (Number 7) =
     \<lparr>sent = [\<lparr>send_method = ''removeOffer'', send_args = [Number 7], send_value = None\<rparr>],
      returned = Some (TransactionPromise
        \<lparr>send_method = ''removeOffer'', send_args = [Number 7], send_value = None\<rparr>)\<rparr>"
  using action_forwarding [where tokenId = "Number 7" and price = "BigNumber 5"]
  by simp

text \<open>
  Claim C10, as amended. A token identifier given as a falsy value (the number 0, the
  bigint 0 or the empty string) is treated as absent by \<open>onBuy\<close>, \<open>onRemoveListing\<close> and
  \<open>onCreateListing\<close>, whatever the other argument: nothing is sent and nothing returned.
\<close>

theorem falsy_token_id_inert:
  "onBuy price (Number 0) = inert \<and> onRemoveListing (Number 0) = inert \<and>
   onCreateListing parseEther price (Number 0) = Inr inert \<and>
   onBuy price (Bigint 0) = inert \<and> onRemoveListing (Bigint 0) = inert \<and>
   onCreateListing parseEther price (Bigint 0) = Inr inert \<and>
   onBuy price (String []) = inert \<and> onRemoveListing (String []) = inert \<and>
   onCreateListing parseEther price (String []) = Inr inert"
  by (simp add: onBuy_def onRemoveListing_def onCreateListing_def)

text \<open>The three callables for token 0 with the other argument present.\<close>

theorem falsy_token_id_inert_witness:
  "onBuy (BigNumber 5) (Number 0) = \<lparr>sent = [], returned = None\<rparr> \<and>
   onRemoveListing (Number 0) = \<lparr>sent = [], returned = None\<rparr> \<and>
   onCreateListing (\<lambda>s. Inr 1) (String ''0.1'') (Number 0) = Inr \<lparr>sent = [], returned = None\<rparr>"
  using falsy_token_id_inert [of "BigNumber 5" "\<lambda>s. Inr 1"]
    falsy_token_id_inert [of "String ''0.1''" "\<lambda>s. Inr 1"]
  by (simp add: inert_def)

text \<open>
  Token 0 given as the string \<open>0\<close> or as a \<open>BigNumber\<close> is truthy and passes the guard:
  \<open>buyKitty\<close> and \<open>removeOffer\<close> are sent for it.
\<close>

theorem token_zero_as_string_is_sent:
  "sent (onBuy (BigNumber 5) (String ''0'')) =
     [\<lparr>send_method = ''buyKitty'', send_args = [String ''0''], send_value = Some (BigNumber 5)\<rparr>] \<and>
   sent (onRemoveListing (BigNumber 0)) =
     [\<lparr>send_method = ''removeOffer'', send_args = [BigNumber 0], send_value = None\<rparr>]"
  by (simp add: onBuy_def onRemoveListing_def send_def Let_def)

end
